theory Spec2Isabelle
  imports Complex_Main
begin

section \<open>The view controller of \<open>vgc/view_controller_fast.py\<close>\<close>

text \<open>
  The module computes the camera command (yaw, pitch, roll, zoom) of a drone-mounted
  camera from the vehicle's attitude and the operator's aim. This theory embeds the class
  \<open>ViewController\<close>: its fields as a record, its setters and one iteration of its
  \<open>main\<close> loop as functions from state to state.

  Numbers: Python floats are idealised as the real numbers, so comparisons, the clamping
  and the control flow are those of the source, and the arithmetic is exact. The source
  divides by a variable in two places; a zero divisor there is the value
  \<open>Inl ZeroDivisionError\<close> of the model. (Python raises on its own floats; on numpy
  scalars the quotient would be infinite or not a number. In both cases the iteration has
  no finite aim.)
\<close>

subsection \<open>Numeric helpers\<close>

datatype error = ZeroDivisionError

text \<open>
  Modelled from the spec: the module \<open>vgc.taylor_math_functions\<close> (imported as \<open>tf\<close>)
  is not among the sources. The specification names its functions \<open>sin\<close>, \<open>cos\<close>,
  \<open>tan\<close>, \<open>atan\<close> and \<open>arccos\<close>, so each is taken as the real function of that name.
  (In HOL \<open>tan x\<close> is \<open>sin x / cos x\<close> and equals 0 where \<open>cos x = 0\<close>.)
\<close>

definition tf_sin :: "real \<Rightarrow> real" where
  "tf_sin x = sin x"

definition tf_cos :: "real \<Rightarrow> real" where
  "tf_cos x = cos x"

definition tf_tan :: "real \<Rightarrow> real" where
  "tf_tan x = tan x"

definition tf_arctan :: "real \<Rightarrow> real" where
  "tf_arctan x = arctan x"

definition tf_arccos :: "real \<Rightarrow> real" where
  "tf_arccos x = arccos x"

text \<open>
  \<open>numpy.arctan2 y x\<close>: the angle of the point \<open>(x, y)\<close> in \<open>(-pi, pi]\<close>, with
  \<open>arctan2 0 0 = 0\<close>.
\<close>

definition arctan2 :: "real \<Rightarrow> real \<Rightarrow> real" where
  "arctan2 y x =
     (if 0 < x then arctan (y / x)
      else if x < 0 then (if 0 \<le> y then arctan (y / x) + pi else arctan (y / x) - pi)
      else if 0 < y then pi / 2
      else if y < 0 then - (pi / 2)
      else 0)"

text \<open>
  Python's \<open>x % m\<close> on floats, for \<open>m > 0\<close>: the result has the sign of \<open>m\<close>. This is
  the exact value, which is below \<open>m\<close>; the float operation rounds it, and for a tiny
  negative \<open>x\<close> the rounded result is \<open>m\<close> itself.
\<close>

definition py_mod :: "real \<Rightarrow> real \<Rightarrow> real" where
  "py_mod x m = x - m * of_int \<lfloor>x / m\<rfloor>"

subsection \<open>Vectors and matrices\<close>

text \<open>
  The source builds \<open>numpy.matrix\<close> values of shape 3x3 and 3x1; they are tuples of rows
  here, and \<open>transpose\<close> and \<open>dot\<close> are written out. \<open>item\<close> is only called with the
  indices 0, 1 and 2.
\<close>

type_synonym vec3 = "real \<times> real \<times> real"
type_synonym mat3 = "vec3 \<times> vec3 \<times> vec3"

fun item :: "vec3 \<Rightarrow> nat \<Rightarrow> real" where
  "item (x, y, z) i = (if i = 0 then x else if i = 1 then y else z)"

fun transpose_m :: "mat3 \<Rightarrow> mat3" where
  "transpose_m ((a11, a12, a13), (a21, a22, a23), (a31, a32, a33)) =
     ((a11, a21, a31), (a12, a22, a32), (a13, a23, a33))"

fun dot_v :: "mat3 \<Rightarrow> vec3 \<Rightarrow> vec3" where
  "dot_v ((a11, a12, a13), (a21, a22, a23), (a31, a32, a33)) (x, y, z) =
     (a11 * x + a12 * y + a13 * z,
      a21 * x + a22 * y + a23 * z,
      a31 * x + a32 * y + a33 * z)"

fun dot_m :: "mat3 \<Rightarrow> mat3 \<Rightarrow> mat3" where
  "dot_m a ((b11, b12, b13), (b21, b22, b23), (b31, b32, b33)) =
     (case (dot_v a (b11, b21, b31), dot_v a (b12, b22, b32), dot_v a (b13, b23, b33)) of
        ((c11, c21, c31), (c12, c22, c32), (c13, c23, c33)) \<Rightarrow>
          ((c11, c12, c13), (c21, c22, c23), (c31, c32, c33)))"

definition identity_m :: mat3 where
  "identity_m = ((1, 0, 0), (0, 1, 0), (0, 0, 1))"

subsection \<open>The state of a \<open>ViewController\<close>\<close>

text \<open>
  The fields assigned in \<open>__init__\<close>, without the pipeline and the thread object. The
  pipeline only receives the command; see \<open>set_cropping_args\<close> below.
\<close>

record state =
  d_roll_in :: real
  d_pitch_in :: real
  d_yaw_in :: real
  d_height_in :: real
  d_coordinate_in :: "real \<times> real"
  d_roll :: real
  d_pitch :: real
  d_yaw :: real
  d_height :: real
  d_coordinate :: "real \<times> real"
  lock_on_in :: bool
  theta_in :: real
  phi_in :: real
  lock_on :: bool
  theta :: real
  phi :: real
  init_lock_on :: bool
  autopilot_write :: bool
  server_write :: bool
  aim_coordinate :: "real \<times> real"
  phi_final :: real
  theta_final :: real
  camera_roll :: real
  camera_yaw :: real
  camera_pitch :: real
  camera_zoom :: real

definition DEG_IN_RED :: real where
  "DEG_IN_RED = 174532925 / 10000000000"

definition init :: state where
  "init = \<lparr> d_roll_in = 0, d_pitch_in = 0, d_yaw_in = 0, d_height_in = 1,
            d_coordinate_in = (0, 0),
            d_roll = 0, d_pitch = 0, d_yaw = 0, d_height = 1, d_coordinate = (0, 0),
            lock_on_in = False, theta_in = 0, phi_in = 0,
            lock_on = False, theta = 0, phi = 0, init_lock_on = False,
            autopilot_write = False, server_write = False,
            aim_coordinate = (0, 0), phi_final = 0, theta_final = 0,
            camera_roll = 0, camera_yaw = 0, camera_pitch = 0, camera_zoom = 2 \<rparr>"

definition deg2rad :: "real \<Rightarrow> real" where
  "deg2rad degrees = DEG_IN_RED * degrees"

definition rad2deg :: "real \<Rightarrow> real" where
  "rad2deg radians = radians / DEG_IN_RED"

subsection \<open>The setters\<close>

text \<open>
  Each setter tests its in-progress flag, sets it, writes the fields and clears it. A
  call that finds the flag set changes nothing.
\<close>

definition update_autopilot_input ::
  "state \<Rightarrow> real \<Rightarrow> real \<Rightarrow> real \<Rightarrow> real \<Rightarrow> real \<Rightarrow> real \<Rightarrow> state" where
  "update_autopilot_input s roll yaw pitch height lon lat =
     (if \<not> autopilot_write s then
        let s1 = s\<lparr>autopilot_write := True\<rparr>;
            s2 = s1\<lparr>d_roll_in := rad2deg roll\<rparr>;
            s3 = s2\<lparr>d_pitch_in := rad2deg pitch\<rparr>;
            s4 = s3\<lparr>d_yaw_in := rad2deg yaw\<rparr>;
            s5 = (if 0 \<le> height then s4\<lparr>d_height_in := height\<rparr> else s4);
            s6 = s5\<lparr>d_coordinate_in := (lon, lat)\<rparr>
        in s6\<lparr>autopilot_write := False\<rparr>
      else s)"

text \<open>
  The arguments \<open>theta\<close>, \<open>phi\<close>, \<open>lock_on\<close> of the source are primed here, since the
  unprimed names are fields of the state.
\<close>

definition update_server_input :: "state \<Rightarrow> real \<Rightarrow> real \<Rightarrow> bool \<Rightarrow> real \<Rightarrow> state" where
  "update_server_input s theta' phi' lock_on' zoom_in =
     (if \<not> server_write s then
        let s1 = s\<lparr>server_write := True\<rparr>;
            s2 = (if \<not> lock_on' then
                    (if 90 \<le> theta' then s1\<lparr>theta_in := 89, phi_in := phi'\<rparr>
                     else if theta' < 0 then s1\<lparr>theta_in := 0, phi_in := phi'\<rparr>
                     else s1\<lparr>theta_in := theta', phi_in := phi'\<rparr>)
                  else s1);
            s3 = (if lock_on' \<and> \<not> lock_on_in s2 then s2\<lparr>init_lock_on := True\<rparr> else s2);
            s4 = s3\<lparr>lock_on_in := lock_on'\<rparr>;
            s5 = (if 2 \<le> zoom_in \<and> zoom_in \<le> 50 then s4\<lparr>camera_zoom := zoom_in\<rparr> else s4)
        in s5\<lparr>server_write := False\<rparr>
      else s)"

subsection \<open>Geodesy\<close>

definition earth_radius_at_lat :: "real \<Rightarrow> real" where
  "earth_radius_at_lat lat =
     (let earth_radius_at_equator = 6378137;
          radius_difference_pole_equator = 21385
      in earth_radius_at_equator - (lat / 90) * radius_difference_pole_equator)"

text \<open>
  \<open>coordinate_to_point\<close> divides by \<open>height\<close>; the square root is the source's
  \<open>** 0.5\<close> of a sum of two squares.
\<close>

definition coordinate_to_point ::
  "real \<times> real \<Rightarrow> real \<times> real \<Rightarrow> real \<Rightarrow> error + (real \<times> real)" where
  "coordinate_to_point coord1 coord2 height =
     (let coord_diff = (fst coord2 - fst coord1, snd coord2 - snd coord1);
          x_diff = tf_tan (deg2rad (fst coord_diff)) * earth_radius_at_lat (snd coord1);
          y_diff = tf_tan (deg2rad (snd coord_diff)) * earth_radius_at_lat (snd coord1);
          phi' = (if x_diff = 0 \<and> y_diff = 0 then 0 else arctan2 x_diff y_diff)
      in if height = 0 then Inl ZeroDivisionError
         else
           let theta_2 = tf_arctan (sqrt (x_diff\<^sup>2 + y_diff\<^sup>2) / height)
           in Inr (rad2deg theta_2, py_mod (rad2deg phi') 360))"

text \<open>\<open>point_to_coordinate\<close> divides by the earth radius at the drone's latitude.\<close>

definition point_to_coordinate ::
  "real \<Rightarrow> real \<Rightarrow> real \<Rightarrow> real \<times> real \<Rightarrow> error + (real \<times> real)" where
  "point_to_coordinate theta' phi' height d_coord =
     (if earth_radius_at_lat (snd d_coord) = 0 then Inl ZeroDivisionError
      else
        let p_lat = deg2rad (snd d_coord) +
              tf_arctan ((height * tf_tan (deg2rad theta') * tf_cos (deg2rad phi'))
                         / earth_radius_at_lat (snd d_coord));
            p_long = deg2rad (fst d_coord) +
              tf_arctan ((height * tf_tan (deg2rad theta') * tf_sin (deg2rad phi'))
                         / earth_radius_at_lat (snd d_coord))
        in Inr (rad2deg p_long, rad2deg p_lat))"

subsection \<open>Rotation\<close>

definition rotation_matrix :: "real \<Rightarrow> real \<Rightarrow> real \<Rightarrow> mat3" where
  "rotation_matrix roll yaw pitch =
     (let roll_rad = deg2rad roll;
          roll_matrix = ((tf_cos roll_rad, 0, tf_sin roll_rad),
                         (0, 1, 0),
                         (- tf_sin roll_rad, 0, tf_cos roll_rad));
          yaw_rad = deg2rad yaw;
          yaw_matrix = ((tf_cos yaw_rad, tf_sin yaw_rad, 0),
                        (- tf_sin yaw_rad, tf_cos yaw_rad, 0),
                        (0, 0, 1));
          pitch_rad = deg2rad pitch;
          pitch_matrix = ((1, 0, 0),
                          (0, tf_cos pitch_rad, - tf_sin pitch_rad),
                          (0, tf_sin pitch_rad, tf_cos pitch_rad))
      in dot_m yaw_matrix (dot_m pitch_matrix roll_matrix))"

definition angular_to_spherical :: "real \<Rightarrow> real \<Rightarrow> vec3" where
  "angular_to_spherical theta' phi' =
     (let theta_rad = deg2rad theta';
          phi_rad = deg2rad phi'
      in (tf_sin theta_rad * tf_sin phi_rad,
          tf_sin theta_rad * tf_cos phi_rad,
          - tf_cos theta_rad))"

definition spherical_to_angular :: "vec3 \<Rightarrow> real \<times> real" where
  "spherical_to_angular coord =
     (let phi' = arctan2 (item coord 0) (item coord 1);
          theta' = tf_arccos (- item coord 2)
      in (rad2deg theta', py_mod (rad2deg phi') 360))"

definition adjust_aim :: "state \<Rightarrow> real \<Rightarrow> real \<Rightarrow> real \<times> real" where
  "adjust_aim s theta' phi' =
     (let inverse_rotation_matrix = transpose_m (rotation_matrix (d_roll s) (d_yaw s) (d_pitch s));
          aim_spherical = angular_to_spherical theta' phi';
          aim_spherical_adjusted = dot_v inverse_rotation_matrix aim_spherical
      in spherical_to_angular aim_spherical_adjusted)"

subsection \<open>One iteration of \<open>main\<close>\<close>

text \<open>
  The body of the \<open>while True\<close> loop of \<open>main\<close>, in its three parts: the copy of the
  operator's input (lines 254 to 259), the copy of the autopilot's input (lines 260 to
  267), and the computation of the command (lines 269 to 288).
\<close>

definition main_read_server :: "state \<Rightarrow> state" where
  "main_read_server s =
     (if \<not> server_write s then
        s\<lparr>server_write := True, lock_on := lock_on_in s, theta := theta_in s,
          phi := phi_in s, server_write := False\<rparr>
      else s)"

definition main_read_autopilot :: "state \<Rightarrow> state" where
  "main_read_autopilot s =
     (if \<not> autopilot_write s then
        s\<lparr>autopilot_write := True, d_roll := d_roll_in s, d_pitch := d_pitch_in s,
          d_yaw := d_yaw_in s, d_height := d_height_in s,
          d_coordinate := d_coordinate_in s, autopilot_write := False\<rparr>
      else s)"

definition main_output :: "state \<Rightarrow> real \<times> real \<Rightarrow> state" where
  "main_output s aim =
     (let s1 = s\<lparr>theta_final := fst aim, phi_final := snd aim\<rparr>;
          s2 = s1\<lparr>camera_pitch := tf_sin (deg2rad (theta_final s1))\<rparr>;
          s3 = s2\<lparr>camera_yaw := phi_final s2\<rparr>
      in s3\<lparr>camera_roll := - d_roll s3 * tf_cos (deg2rad (phi_final s3))
                             - d_pitch s3 * tf_sin (deg2rad (phi_final s3))\<rparr>)"

definition main_aim :: "state \<Rightarrow> error + state" where
  "main_aim s =
     (if lock_on s then
        (case (if init_lock_on s then
                 (case point_to_coordinate (theta s) (phi s) (d_height s) (d_coordinate s) of
                    Inl e \<Rightarrow> Inl e
                  | Inr c \<Rightarrow> Inr (s\<lparr>aim_coordinate := c, init_lock_on := False\<rparr>))
               else Inr s) of
           Inl e \<Rightarrow> Inl e
         | Inr s1 \<Rightarrow>
             (case coordinate_to_point (d_coordinate s1) (aim_coordinate s1) (d_height s1) of
                Inl e \<Rightarrow> Inl e
              | Inr (theta_temp, phi_temp) \<Rightarrow>
                  Inr (main_output s1 (adjust_aim s1 theta_temp phi_temp))))
      else Inr (main_output s (adjust_aim s (theta s) (phi s))))"

definition main_cycle :: "state \<Rightarrow> error + state" where
  "main_cycle s = main_aim (main_read_autopilot (main_read_server s))"

text \<open>The arguments of \<open>pipeline.set_cropping\<close> at the end of an iteration.\<close>

definition set_cropping_args :: "state \<Rightarrow> real \<times> real \<times> real \<times> real" where
  "set_cropping_args s = (camera_yaw s, camera_pitch s, camera_roll s, camera_zoom s)"

subsection \<open>Runs: setter calls interleaved with loop iterations\<close>

text \<open>
  The setters are called by the adapters while the loop runs. A run is a list of events,
  each a call of a setter or one iteration of the loop, executed one after the other; an
  iteration that raises ends the run, as it ends the thread of the source.
\<close>

datatype event =
    ServerInput real real bool real
  | AutopilotInput real real real real real real
  | Cycle

fun step :: "state \<Rightarrow> event \<Rightarrow> error + state" where
  "step s (ServerInput theta' phi' lock_on' zoom_in) =
     Inr (update_server_input s theta' phi' lock_on' zoom_in)"
| "step s (AutopilotInput roll yaw pitch height lon lat) =
     Inr (update_autopilot_input s roll yaw pitch height lon lat)"
| "step s Cycle = main_cycle s"

fun run :: "state \<Rightarrow> event list \<Rightarrow> error + state" where
  "run s [] = Inr s"
| "run s (e # es) = (case step s e of Inl err \<Rightarrow> Inl err | Inr s' \<Rightarrow> run s' es)"

text \<open>
  An iteration captures the target when it reaches line 271, that is when, after the two
  copies, both \<open>lock_on\<close> and \<open>init_lock_on\<close> hold. \<open>captures\<close> counts these iterations
  in a run.
\<close>

definition capture_due :: "state \<Rightarrow> bool" where
  "capture_due s =
     (let s1 = main_read_autopilot (main_read_server s) in lock_on s1 \<and> init_lock_on s1)"

fun captures :: "state \<Rightarrow> event list \<Rightarrow> nat" where
  "captures s [] = 0"
| "captures s (e # es) =
     (if e = Cycle \<and> capture_due s then 1 else 0) +
     (case step s e of Inl err \<Rightarrow> 0 | Inr s' \<Rightarrow> captures s' es)"

text \<open>
  \<open>lock_held\<close>: the event does not publish \<open>lock_on = False\<close>;
  \<open>lock_released\<close>: the event does not publish \<open>lock_on = True\<close>.
\<close>

fun lock_held :: "event \<Rightarrow> bool" where
  "lock_held (ServerInput theta' phi' lock_on' zoom_in) = lock_on'"
| "lock_held e = True"

fun lock_released :: "event \<Rightarrow> bool" where
  "lock_released (ServerInput theta' phi' lock_on' zoom_in) = (\<not> lock_on')"
| "lock_released e = True"

text \<open>A sequence of calls of \<open>update_server_input\<close>, each with its four arguments.\<close>

fun server_inputs :: "state \<Rightarrow> (real \<times> real \<times> bool \<times> real) list \<Rightarrow> state" where
  "server_inputs s [] = s"
| "server_inputs s ((theta', phi', lock_on', zoom_in) # calls) =
     server_inputs (update_server_input s theta' phi' lock_on' zoom_in) calls"

section \<open>Properties of the setters\<close>

subsection \<open>Clamping of theta\<close>

text \<open>
  Claim C3, as stated: after any call of \<open>update_server_input\<close> made while
  \<open>server_write\<close> is clear, \<open>theta_in\<close> is 0 for a negative argument, 89 for an argument
  of at least 90, and the argument otherwise, whatever the other arguments are. The
  source clamps and stores theta only under \<open>if not lock_on\<close>: a call with
  \<open>lock_on = True\<close> leaves \<open>theta_in\<close> as it was. Here the argument 45 is in range and
  the stored value stays 0.
\<close>

theorem theta_not_stored_when_locking:
  "\<not> server_write init \<and> theta_in (update_server_input init 45 0 True 2) \<noteq> 45"
  by (simp add: update_server_input_def init_def Let_def)

text \<open>
  Claim C3, amended: after a call made while \<open>server_write\<close> is clear, \<open>theta_in\<close> is the
  clamped argument when the call's \<open>lock_on\<close> is false, and its previous value when the
  call's \<open>lock_on\<close> is true; \<open>phi\<close> and \<open>zoom_in\<close> have no influence.
\<close>

theorem update_server_input_theta_in:
  "\<not> server_write s \<Longrightarrow>
   theta_in (update_server_input s theta' phi' lock_on' zoom_in) =
     (if lock_on' then theta_in s
      else if theta' < 0 then 0 else if 90 \<le> theta' then 89 else theta')"
  by (simp add: update_server_input_def Let_def)

theorem update_server_input_theta_in_witness:
  "\<not> server_write init \<and>
   theta_in (update_server_input init 95 10 False 2) = 89 \<and>
   theta_in (update_server_input init (- 5) 0 False 2) = 0 \<and>
   theta_in (update_server_input init 30 0 False 2) = 30 \<and>
   theta_in (update_server_input init 30 0 True 2) = theta_in init"
  using update_server_input_theta_in [of init 95 10 False 2]
    update_server_input_theta_in [of init "- 5" 0 False 2]
    update_server_input_theta_in [of init 30 0 False 2]
    update_server_input_theta_in [of init 30 0 True 2]
  by (simp add: init_def)

subsection \<open>Zoom\<close>

lemma update_server_input_zoom:
  "camera_zoom (update_server_input s theta' phi' lock_on' zoom_in) =
     (if \<not> server_write s \<and> 2 \<le> zoom_in \<and> zoom_in \<le> 50 then zoom_in else camera_zoom s)"
  by (simp add: update_server_input_def Let_def)

lemma update_server_input_flag:
  "server_write (update_server_input s theta' phi' lock_on' zoom_in) = server_write s"
  by (simp add: update_server_input_def Let_def)

lemma server_inputs_flag: "server_write (server_inputs s calls) = server_write s"
  by (induction s calls rule: server_inputs.induct) (simp_all add: update_server_input_flag)

lemma server_inputs_zoom_range:
  "2 \<le> camera_zoom s \<Longrightarrow> camera_zoom s \<le> 50 \<Longrightarrow>
   2 \<le> camera_zoom (server_inputs s calls) \<and> camera_zoom (server_inputs s calls) \<le> 50"
  by (induction s calls rule: server_inputs.induct) (simp_all add: update_server_input_zoom)

text \<open>
  Claim C7: \<open>camera_zoom\<close> starts at 2; after every sequence of calls of
  \<open>update_server_input\<close> it is in \<open>[2, 50]\<close>; a further call with \<open>zoom_in\<close> in
  \<open>[2, 50]\<close> sets it to \<open>zoom_in\<close>, and a call with \<open>zoom_in\<close> outside leaves it as it
  was.
\<close>

theorem camera_zoom_invariant:
  "camera_zoom init = 2 \<and>
   2 \<le> camera_zoom (server_inputs init calls) \<and>
   camera_zoom (server_inputs init calls) \<le> 50 \<and>
   camera_zoom (update_server_input (server_inputs init calls) theta' phi' lock_on' zoom_in) =
     (if 2 \<le> zoom_in \<and> zoom_in \<le> 50 then zoom_in
      else camera_zoom (server_inputs init calls))"
proof -
  have start: "camera_zoom init = 2" and clear: "\<not> server_write init"
    by (simp_all add: init_def)
  have range: "2 \<le> camera_zoom (server_inputs init calls) \<and>
      camera_zoom (server_inputs init calls) \<le> 50"
    by (rule server_inputs_zoom_range) (simp_all add: start)
  have "\<not> server_write (server_inputs init calls)"
    by (simp add: server_inputs_flag clear)
  then show ?thesis
    using start range by (simp add: update_server_input_zoom)
qed

subsection \<open>Height\<close>

text \<open>
  Claim C9: a call of \<open>update_autopilot_input\<close> made while \<open>autopilot_write\<close> is clear and
  with a negative height stores roll, pitch and yaw, converted to degrees, and the
  coordinate; the height keeps its previous value, and no other field changes.
\<close>

theorem negative_height_frame:
  assumes "\<not> autopilot_write s" and "height < 0"
  shows "update_autopilot_input s roll yaw pitch height lon lat =
           s\<lparr>d_roll_in := rad2deg roll, d_pitch_in := rad2deg pitch,
             d_yaw_in := rad2deg yaw, d_coordinate_in := (lon, lat)\<rparr> \<and>
         d_height_in (update_autopilot_input s roll yaw pitch height lon lat) = d_height_in s"
  using assms by (simp add: update_autopilot_input_def Let_def)

theorem negative_height_frame_witness:
  "\<not> autopilot_write init \<and> (- 3 :: real) < 0 \<and>
   d_roll_in (update_autopilot_input init 1 2 3 (- 3) 4 5) = rad2deg 1 \<and>
   d_pitch_in (update_autopilot_input init 1 2 3 (- 3) 4 5) = rad2deg 3 \<and>
   d_yaw_in (update_autopilot_input init 1 2 3 (- 3) 4 5) = rad2deg 2 \<and>
   d_coordinate_in (update_autopilot_input init 1 2 3 (- 3) 4 5) = (4, 5) \<and>
   d_height_in (update_autopilot_input init 1 2 3 (- 3) 4 5) = 1"
proof -
  have clear: "\<not> autopilot_write init" and h: "d_height_in init = 1"
    by (simp_all add: init_def)
  have neg: "(- 3 :: real) < 0" by simp
  show ?thesis
    using negative_height_frame [OF clear neg, of 1 2 3 4 5] clear h by simp
qed

text \<open>
  Claim C4 says that a height of exactly 0 is ignored and that the stored height, the
  divisor of \<open>coordinate_to_point\<close>, is always positive. The guard of the source is
  \<open>height >= 0\<close>: the call below stores 0, and the next iteration in lock-on mode divides
  by it.
\<close>

theorem zero_height_is_stored:
  "d_height_in (update_autopilot_input init 0 0 0 0 0 0) = 0 \<and>
   run init [AutopilotInput 0 0 0 0 0 0, ServerInput 0 0 True 2, Cycle] =
     Inl ZeroDivisionError"
  by (simp add: update_autopilot_input_def update_server_input_def init_def Let_def
      main_cycle_def main_read_server_def main_read_autopilot_def main_aim_def
      point_to_coordinate_def coordinate_to_point_def earth_radius_at_lat_def)

section \<open>Geodesy\<close>

text \<open>
  Claim C8: for every coordinate \<open>origin\<close> and every height above 0,
  \<open>coordinate_to_point origin origin height\<close> returns theta 0 and phi 0: both offsets are
  0, so the bearing is the 0 of line 205 and not an \<open>arctan2\<close>.
\<close>

theorem degenerate_bearing:
  "0 < height \<Longrightarrow> coordinate_to_point origin origin height = Inr (0, 0)"
  by (simp add: coordinate_to_point_def Let_def tf_tan_def tf_arctan_def deg2rad_def
      rad2deg_def py_mod_def)

theorem degenerate_bearing_witness:
  "(0 :: real) < 120 \<and> coordinate_to_point (18, 59) (18, 59) 120 = Inr (0, 0)"
  using degenerate_bearing [of 120 "(18, 59)"] by simp

section \<open>The loop\<close>

subsection \<open>What an iteration writes\<close>

lemma main_output_fields:
  "lock_on_in (main_output s a) = lock_on_in s"
  "server_write (main_output s a) = server_write s"
  "init_lock_on (main_output s a) = init_lock_on s"
  "aim_coordinate (main_output s a) = aim_coordinate s"
  "theta (main_output s a) = theta s"
  "phi (main_output s a) = phi s"
  "d_height (main_output s a) = d_height s"
  "d_coordinate (main_output s a) = d_coordinate s"
  "lock_on (main_output s a) = lock_on s"
  "d_roll (main_output s a) = d_roll s"
  "d_pitch (main_output s a) = d_pitch s"
  "d_yaw (main_output s a) = d_yaw s"
  "camera_zoom (main_output s a) = camera_zoom s"
  by (simp_all add: main_output_def Let_def)

lemma main_output_command:
  "theta_final (main_output s a) = fst a"
  "phi_final (main_output s a) = snd a"
  "camera_pitch (main_output s a) = sin (deg2rad (fst a))"
  "camera_yaw (main_output s a) = snd a"
  "camera_roll (main_output s a) =
     - d_roll s * cos (deg2rad (snd a)) - d_pitch s * sin (deg2rad (snd a))"
  by (simp_all add: main_output_def Let_def tf_sin_def tf_cos_def)

lemma adjust_aim_main_output: "adjust_aim (main_output s a) t p = adjust_aim s t p"
  by (simp add: adjust_aim_def main_output_fields)

text \<open>
  A successful \<open>main_aim\<close> ends in \<open>main_output\<close>, applied to the compensated aim of the
  mode the iteration is in.
\<close>

lemma main_aim_result:
  assumes "main_aim s = Inr s'"
  shows "\<exists>s1 a. s' = main_output s1 a \<and> camera_zoom s1 = camera_zoom s \<and>
    (if lock_on s1
     then \<exists>theta_temp phi_temp.
            coordinate_to_point (d_coordinate s1) (aim_coordinate s1) (d_height s1) =
              Inr (theta_temp, phi_temp) \<and> a = adjust_aim s1 theta_temp phi_temp
     else a = adjust_aim s1 (theta s1) (phi s1))"
proof (cases "lock_on s")
  case False
  with assms have "s' = main_output s (adjust_aim s (theta s) (phi s))"
    by (simp add: main_aim_def)
  with False have "s' = main_output s (adjust_aim s (theta s) (phi s)) \<and>
      camera_zoom s = camera_zoom s \<and>
      (if lock_on s
       then \<exists>theta_temp phi_temp.
            coordinate_to_point (d_coordinate s) (aim_coordinate s) (d_height s) =
              Inr (theta_temp, phi_temp) \<and>
            adjust_aim s (theta s) (phi s) = adjust_aim s theta_temp phi_temp
       else adjust_aim s (theta s) (phi s) = adjust_aim s (theta s) (phi s))"
    by simp
  then show ?thesis by blast
next
  case True
  define s1 where "s1 = (if init_lock_on s
      then (case point_to_coordinate (theta s) (phi s) (d_height s) (d_coordinate s) of
              Inr c \<Rightarrow> s\<lparr>aim_coordinate := c, init_lock_on := False\<rparr> | Inl e \<Rightarrow> s)
      else s)"
  have l1: "lock_on s1" and z1: "camera_zoom s1 = camera_zoom s"
    using True by (simp_all add: s1_def split: sum.splits)
  from assms True have "\<exists>theta_temp phi_temp.
      coordinate_to_point (d_coordinate s1) (aim_coordinate s1) (d_height s1) =
        Inr (theta_temp, phi_temp) \<and>
      s' = main_output s1 (adjust_aim s1 theta_temp phi_temp)"
    by (auto simp add: main_aim_def s1_def split: if_splits sum.splits prod.splits)
  then obtain theta_temp phi_temp where
    c: "coordinate_to_point (d_coordinate s1) (aim_coordinate s1) (d_height s1) =
        Inr (theta_temp, phi_temp)"
    and s': "s' = main_output s1 (adjust_aim s1 theta_temp phi_temp)"
    by blast
  from c l1 have "if lock_on s1
     then \<exists>theta_temp' phi_temp'.
            coordinate_to_point (d_coordinate s1) (aim_coordinate s1) (d_height s1) =
              Inr (theta_temp', phi_temp') \<and>
            adjust_aim s1 theta_temp phi_temp = adjust_aim s1 theta_temp' phi_temp'
     else adjust_aim s1 theta_temp phi_temp = adjust_aim s1 (theta s1) (phi s1)"
    by auto
  with s' z1 show ?thesis by blast
qed

lemma main_aim_snapshot:
  assumes "main_aim s = Inr s'"
  shows "lock_on s' = lock_on s" "theta s' = theta s" "phi s' = phi s"
    "d_roll s' = d_roll s" "d_pitch s' = d_pitch s" "d_yaw s' = d_yaw s"
    "d_height s' = d_height s" "d_coordinate s' = d_coordinate s"
    "if lock_on s \<and> init_lock_on s
     then point_to_coordinate (theta s) (phi s) (d_height s) (d_coordinate s) =
            Inr (aim_coordinate s')
     else aim_coordinate s' = aim_coordinate s"
  using assms
  by (auto simp add: main_aim_def main_output_fields split: if_splits sum.splits prod.splits)

lemma main_read_fields:
  "lock_on (main_read_autopilot (main_read_server s)) =
     (if server_write s then lock_on s else lock_on_in s)"
  "theta (main_read_autopilot (main_read_server s)) =
     (if server_write s then theta s else theta_in s)"
  "phi (main_read_autopilot (main_read_server s)) =
     (if server_write s then phi s else phi_in s)"
  "d_roll (main_read_autopilot (main_read_server s)) =
     (if autopilot_write s then d_roll s else d_roll_in s)"
  "d_pitch (main_read_autopilot (main_read_server s)) =
     (if autopilot_write s then d_pitch s else d_pitch_in s)"
  "d_yaw (main_read_autopilot (main_read_server s)) =
     (if autopilot_write s then d_yaw s else d_yaw_in s)"
  "d_height (main_read_autopilot (main_read_server s)) =
     (if autopilot_write s then d_height s else d_height_in s)"
  "d_coordinate (main_read_autopilot (main_read_server s)) =
     (if autopilot_write s then d_coordinate s else d_coordinate_in s)"
  "init_lock_on (main_read_autopilot (main_read_server s)) = init_lock_on s"
  "aim_coordinate (main_read_autopilot (main_read_server s)) = aim_coordinate s"
  "camera_zoom (main_read_autopilot (main_read_server s)) = camera_zoom s"
  by (simp_all add: main_read_autopilot_def main_read_server_def)

text \<open>
  Claim C6: every iteration that completes works on this iteration's copies of the
  inputs (the published values, when the flag of the channel is clear), takes
  \<open>(theta_final, phi_final)\<close> from \<open>adjust_aim\<close> (on the operator's aim in direct mode,
  on the aim towards the saved coordinate in lock-on mode), and commands
  \<open>camera_pitch = sin (deg2rad theta_final)\<close>, \<open>camera_yaw = phi_final\<close> and
  \<open>camera_roll = - d_roll * cos (deg2rad phi_final) - d_pitch * sin (deg2rad phi_final)\<close>;
  these three and the unchanged zoom are what \<open>set_cropping\<close> receives.
\<close>

theorem main_cycle_output:
  assumes "main_cycle s = Inr s'"
  shows "lock_on s' = (if server_write s then lock_on s else lock_on_in s) \<and>
         theta s' = (if server_write s then theta s else theta_in s) \<and>
         phi s' = (if server_write s then phi s else phi_in s) \<and>
         d_roll s' = (if autopilot_write s then d_roll s else d_roll_in s) \<and>
         d_pitch s' = (if autopilot_write s then d_pitch s else d_pitch_in s) \<and>
         d_yaw s' = (if autopilot_write s then d_yaw s else d_yaw_in s) \<and>
         d_height s' = (if autopilot_write s then d_height s else d_height_in s) \<and>
         d_coordinate s' =
           (if autopilot_write s then d_coordinate s else d_coordinate_in s) \<and>
         (if lock_on s' \<and> init_lock_on s
          then point_to_coordinate (theta s') (phi s') (d_height s') (d_coordinate s') =
                 Inr (aim_coordinate s')
          else aim_coordinate s' = aim_coordinate s) \<and>
         (if lock_on s'
          then \<exists>theta_temp phi_temp.
                 coordinate_to_point (d_coordinate s') (aim_coordinate s') (d_height s') =
                   Inr (theta_temp, phi_temp) \<and>
                 (theta_final s', phi_final s') = adjust_aim s' theta_temp phi_temp
          else (theta_final s', phi_final s') = adjust_aim s' (theta s') (phi s')) \<and>
         camera_pitch s' = sin (deg2rad (theta_final s')) \<and>
         camera_yaw s' = phi_final s' \<and>
         camera_roll s' = - d_roll s' * cos (deg2rad (phi_final s'))
                          - d_pitch s' * sin (deg2rad (phi_final s')) \<and>
         set_cropping_args s' = (camera_yaw s', camera_pitch s', camera_roll s', camera_zoom s)"
proof -
  let ?s0 = "main_read_autopilot (main_read_server s)"
  from assms have m: "main_aim ?s0 = Inr s'"
    by (simp add: main_cycle_def)
  note snap = main_aim_snapshot [OF m]
  from m obtain s1 a where s': "s' = main_output s1 a"
    and z: "camera_zoom s1 = camera_zoom ?s0"
    and a1: "if lock_on s1
     then \<exists>theta_temp phi_temp.
            coordinate_to_point (d_coordinate s1) (aim_coordinate s1) (d_height s1) =
              Inr (theta_temp, phi_temp) \<and> a = adjust_aim s1 theta_temp phi_temp
     else a = adjust_aim s1 (theta s1) (phi s1)"
    using main_aim_result by blast
  have a: "if lock_on s'
     then \<exists>theta_temp phi_temp.
            coordinate_to_point (d_coordinate s') (aim_coordinate s') (d_height s') =
              Inr (theta_temp, phi_temp) \<and> a = adjust_aim s' theta_temp phi_temp
     else a = adjust_aim s' (theta s') (phi s')"
    using a1 by (simp add: s' main_output_fields adjust_aim_main_output)
  have fin: "(theta_final s', phi_final s') = a"
    by (simp add: s' main_output_command)
  have cmd: "camera_pitch s' = sin (deg2rad (theta_final s'))"
    "camera_yaw s' = phi_final s'"
    "camera_roll s' = - d_roll s' * cos (deg2rad (phi_final s'))
                      - d_pitch s' * sin (deg2rad (phi_final s'))"
    "camera_zoom s' = camera_zoom s"
    by (simp_all add: s' main_output_command main_output_fields z main_read_fields)
  have cap: "if lock_on s' \<and> init_lock_on s
          then point_to_coordinate (theta s') (phi s') (d_height s') (d_coordinate s') =
                 Inr (aim_coordinate s')
          else aim_coordinate s' = aim_coordinate s"
    using snap(9) unfolding snap(1-8) [symmetric] by (simp add: main_read_fields)
  show ?thesis
    using a cap cmd unfolding fin
    by (simp add: snap(1-8) main_read_fields set_cropping_args_def)
qed

text \<open>An iteration on the state of \<open>__init__\<close> changes nothing and commands 0, 0, 0.\<close>

lemma cycle_level_zero:
  "main_cycle (init\<lparr>lock_on_in := l, lock_on := l', init_lock_on := i\<rparr>) =
   Inr (init\<lparr>lock_on_in := l, lock_on := l, init_lock_on := (i \<and> \<not> l)\<rparr>)"
  by (simp add: main_cycle_def main_read_server_def main_read_autopilot_def main_aim_def
      main_output_def adjust_aim_def init_def rotation_matrix_def angular_to_spherical_def
      spherical_to_angular_def deg2rad_def rad2deg_def tf_sin_def tf_cos_def tf_arccos_def
      tf_tan_def tf_arctan_def arctan2_def py_mod_def Let_def point_to_coordinate_def
      coordinate_to_point_def earth_radius_at_lat_def)

lemma init_tracker:
  "init = init\<lparr>lock_on_in := False, lock_on := False, init_lock_on := False\<rparr>"
  by (simp add: init_def)

section \<open>Lock-on: when the target is captured\<close>

subsection \<open>Runs and their parts\<close>

lemma run_append:
  "run s (es1 @ es2) = (case run s es1 of Inl err \<Rightarrow> Inl err | Inr s1 \<Rightarrow> run s1 es2)"
  by (induction es1 arbitrary: s) (auto split: sum.splits)

lemma captures_append:
  "run s es1 = Inr s1 \<Longrightarrow> captures s (es1 @ es2) = captures s es1 + captures s1 es2"
  by (induction es1 arbitrary: s) (auto split: sum.splits)

lemma run_take:
  assumes "run s es = Inr s'"
  shows "\<exists>sk. run s (take k es) = Inr sk"
proof -
  from assms have "run s (take k es @ drop k es) = Inr s'" by simp
  then show ?thesis unfolding run_append by (auto split: sum.splits)
qed

subsection \<open>The fields the tracker depends on\<close>

lemma update_server_input_tracker:
  assumes "\<not> server_write s"
  shows "lock_on_in (update_server_input s t p l z) = l"
    "\<not> server_write (update_server_input s t p l z)"
    "init_lock_on (update_server_input s t p l z) = (init_lock_on s \<or> (l \<and> \<not> lock_on_in s))"
    "aim_coordinate (update_server_input s t p l z) = aim_coordinate s"
  using assms by (simp_all add: update_server_input_def Let_def)

lemma update_autopilot_input_tracker:
  "lock_on_in (update_autopilot_input s r y p h lo la) = lock_on_in s"
  "server_write (update_autopilot_input s r y p h lo la) = server_write s"
  "init_lock_on (update_autopilot_input s r y p h lo la) = init_lock_on s"
  "aim_coordinate (update_autopilot_input s r y p h lo la) = aim_coordinate s"
  by (simp_all add: update_autopilot_input_def Let_def)

lemma capture_due_iff:
  "\<not> server_write s \<Longrightarrow> capture_due s = (lock_on_in s \<and> init_lock_on s)"
  by (simp add: capture_due_def main_read_server_def main_read_autopilot_def)

lemma main_cycle_tracker:
  assumes "\<not> server_write s" "main_cycle s = Inr s'"
  shows "lock_on_in s' = lock_on_in s" "\<not> server_write s'" "lock_on s' = lock_on_in s"
    "init_lock_on s' = (init_lock_on s \<and> \<not> lock_on_in s)"
    "\<not> (lock_on_in s \<and> init_lock_on s) \<Longrightarrow> aim_coordinate s' = aim_coordinate s"
    "lock_on_in s \<and> init_lock_on s \<Longrightarrow>
       point_to_coordinate (theta s') (phi s') (d_height s') (d_coordinate s') =
         Inr (aim_coordinate s')"
  using assms
  by (auto simp add: main_cycle_def main_aim_def main_read_server_def
      main_read_autopilot_def main_output_fields split: if_splits sum.splits prod.splits)

subsection \<open>The phases of a run\<close>

text \<open>Locked, the capture done: nothing is captured and the target stays.\<close>

lemma locked_steady:
  assumes "\<not> server_write s" "lock_on_in s" "\<not> init_lock_on s"
    "list_all lock_held es" "run s es = Inr s'"
  shows "captures s es = 0 \<and> aim_coordinate s' = aim_coordinate s \<and>
         lock_on_in s' \<and> \<not> init_lock_on s' \<and> \<not> server_write s'"
  using assms
proof (induction es arbitrary: s)
  case Nil
  then show ?case by simp
next
  case (Cons e es)
  from Cons.prems(5) obtain s1 where s1: "step s e = Inr s1" and r: "run s1 es = Inr s'"
    by (auto split: sum.splits)
  have inv: "\<not> server_write s1 \<and> lock_on_in s1 \<and> \<not> init_lock_on s1 \<and>
      aim_coordinate s1 = aim_coordinate s"
  proof (cases e)
    case (ServerInput t p l z)
    with Cons.prems s1 show ?thesis by (auto simp: update_server_input_tracker)
  next
    case (AutopilotInput r y p h lo la)
    with Cons.prems s1 show ?thesis by (auto simp: update_autopilot_input_tracker)
  next
    case Cycle
    with Cons.prems s1 show ?thesis using main_cycle_tracker [of s s1] by auto
  qed
  have nd: "\<not> capture_due s" using Cons.prems by (simp add: capture_due_iff)
  from Cons.prems(4) have "list_all lock_held es" by simp
  with inv r have "captures s1 es = 0 \<and> aim_coordinate s' = aim_coordinate s1 \<and>
         lock_on_in s' \<and> \<not> init_lock_on s' \<and> \<not> server_write s'"
    using Cons.IH [of s1] by blast
  with inv nd s1 show ?case by simp
qed

lemma locked_steady_prefix:
  assumes "\<not> server_write s" "lock_on_in s" "\<not> init_lock_on s"
    "list_all lock_held es" "run s es = Inr s'"
  shows "\<exists>sk. run s (take k es) = Inr sk \<and> aim_coordinate sk = aim_coordinate s"
proof -
  from run_take [OF assms(5)] obtain sk where sk: "run s (take k es) = Inr sk" by blast
  have "list_all lock_held (take k es)"
    using assms(4) by (auto simp: list_all_iff dest: in_set_takeD)
  from locked_steady [OF assms(1-3) this sk] sk show ?thesis by blast
qed

text \<open>Lock-on published, no iteration yet: the capture stays due.\<close>

lemma locked_pending:
  assumes "\<not> server_write s" "lock_on_in s" "init_lock_on s"
    "list_all lock_held es" "Cycle \<notin> set es"
  shows "\<exists>s'. run s es = Inr s' \<and> captures s es = 0 \<and>
         aim_coordinate s' = aim_coordinate s \<and>
         lock_on_in s' \<and> init_lock_on s' \<and> \<not> server_write s'"
  using assms
proof (induction es arbitrary: s)
  case Nil
  then show ?case by simp
next
  case (Cons e es)
  obtain s1 where s1: "step s e = Inr s1"
    and inv: "\<not> server_write s1 \<and> lock_on_in s1 \<and> init_lock_on s1 \<and>
      aim_coordinate s1 = aim_coordinate s"
  proof (cases e)
    case (ServerInput t p l z)
    with Cons.prems that show ?thesis by (auto simp: update_server_input_tracker)
  next
    case (AutopilotInput r y p h lo la)
    with Cons.prems that show ?thesis by (auto simp: update_autopilot_input_tracker)
  next
    case Cycle
    with Cons.prems show ?thesis by simp
  qed
  from Cons.prems have "list_all lock_held es" "Cycle \<notin> set es" "e \<noteq> Cycle" by auto
  with inv s1 show ?case using Cons.IH [of s1] by auto
qed

text \<open>Lock-on released: nothing is captured.\<close>

lemma released_phase:
  assumes "\<not> server_write s" "\<not> lock_on_in s"
    "list_all lock_released es" "run s es = Inr s'"
  shows "captures s es = 0 \<and> aim_coordinate s' = aim_coordinate s \<and>
         \<not> lock_on_in s' \<and> \<not> server_write s'"
  using assms
proof (induction es arbitrary: s)
  case Nil
  then show ?case by simp
next
  case (Cons e es)
  from Cons.prems(4) obtain s1 where s1: "step s e = Inr s1" and r: "run s1 es = Inr s'"
    by (auto split: sum.splits)
  have inv: "\<not> server_write s1 \<and> \<not> lock_on_in s1 \<and> aim_coordinate s1 = aim_coordinate s"
  proof (cases e)
    case (ServerInput t p l z)
    with Cons.prems s1 show ?thesis by (auto simp: update_server_input_tracker)
  next
    case (AutopilotInput r y p h lo la)
    with Cons.prems s1 show ?thesis by (auto simp: update_autopilot_input_tracker)
  next
    case Cycle
    with Cons.prems s1 show ?thesis using main_cycle_tracker [of s s1] by auto
  qed
  have nd: "\<not> capture_due s" using Cons.prems by (simp add: capture_due_iff)
  from Cons.prems(3) have "list_all lock_released es" by simp
  with inv r have "captures s1 es = 0 \<and> aim_coordinate s' = aim_coordinate s1 \<and>
         \<not> lock_on_in s' \<and> \<not> server_write s'"
    using Cons.IH [of s1] by blast
  with inv nd s1 show ?case by simp
qed

text \<open>
  A session: setter calls that keep lock-on, the first iteration, and any events that
  keep lock-on after it.
\<close>

lemma locked_session:
  assumes "\<not> server_write s" "lock_on_in s" "init_lock_on s"
    "list_all lock_held pre" "Cycle \<notin> set pre" "list_all lock_held post"
    "run s (pre @ Cycle # post) = Inr s'"
  shows "captures s (pre @ Cycle # post) = 1 \<and>
         lock_on_in s' \<and> \<not> init_lock_on s' \<and> \<not> server_write s' \<and>
         (\<exists>s1 s2. run s pre = Inr s1 \<and> main_cycle s1 = Inr s2 \<and> run s2 post = Inr s' \<and>
            capture_due s1 \<and>
            point_to_coordinate (theta s2) (phi s2) (d_height s2) (d_coordinate s2) =
              Inr (aim_coordinate s2) \<and>
            aim_coordinate s' = aim_coordinate s2)"
proof -
  from locked_pending [OF assms(1-5)] obtain s1 where
    r1: "run s pre = Inr s1" and c1: "captures s pre = 0"
    and i1: "lock_on_in s1" "init_lock_on s1" "\<not> server_write s1"
    by blast
  from assms(7) r1 obtain s2 where m: "main_cycle s1 = Inr s2" and r2: "run s2 post = Inr s'"
    by (auto simp: run_append split: sum.splits)
  have d: "capture_due s1" using i1 by (simp add: capture_due_iff)
  from main_cycle_tracker [OF i1(3) m] i1 have
    i2: "\<not> server_write s2" "lock_on_in s2" "\<not> init_lock_on s2"
    and p: "point_to_coordinate (theta s2) (phi s2) (d_height s2) (d_coordinate s2) =
         Inr (aim_coordinate s2)"
    by auto
  from locked_steady [OF i2 assms(6) r2] have
    st: "captures s2 post = 0" "aim_coordinate s' = aim_coordinate s2"
     "lock_on_in s'" "\<not> init_lock_on s'" "\<not> server_write s'"
    by auto
  have "captures s (pre @ Cycle # post) = captures s pre + captures s1 (Cycle # post)"
    using r1 by (rule captures_append)
  also have "\<dots> = 1" using c1 d m st(1) by simp
  finally show ?thesis using st r1 m r2 d p by blast
qed

subsection \<open>One capture for each session\<close>

text \<open>
  Claim C2, amended: capture is edge-triggered, once per Locked session that the loop
  sees. Start in a state where the published \<open>lock_on\<close> is false, publish
  \<open>lock_on = True\<close>, and let the loop run at least one iteration while every further
  publish keeps \<open>lock_on\<close> true (\<open>pre\<close>, with no iteration in it; then the first
  iteration; then \<open>post\<close>). If no iteration raises, exactly one iteration of the run
  captures: the first. It assigns to \<open>aim_coordinate\<close> the result of
  \<open>point_to_coordinate\<close> on the \<open>theta\<close>, \<open>phi\<close>, \<open>d_height\<close> and \<open>d_coordinate\<close> of that
  iteration, and \<open>aim_coordinate\<close> has this value after every later event of the session.
  A run of such a session, a release (a publish of \<open>lock_on = False\<close> and any events that
  keep it false) and a second such session has exactly two captures.
\<close>

theorem capture_once_per_session:
  assumes clear: "\<not> server_write s" and direct: "\<not> lock_on_in s"
    and first: "list_all lock_held pre" "Cycle \<notin> set pre" "list_all lock_held post"
    and between: "list_all lock_released mid"
    and second: "list_all lock_held pre'" "Cycle \<notin> set pre'" "list_all lock_held post'"
  shows
    "(\<forall>s'. run s (ServerInput t p True z # pre @ Cycle # post) = Inr s' \<longrightarrow>
        captures s (ServerInput t p True z # pre @ Cycle # post) = 1 \<and>
        (\<exists>s1 s2. run s (ServerInput t p True z # pre) = Inr s1 \<and> main_cycle s1 = Inr s2 \<and>
           capture_due s1 \<and>
           point_to_coordinate (theta s2) (phi s2) (d_height s2) (d_coordinate s2) =
             Inr (aim_coordinate s2) \<and>
           (\<forall>k. \<exists>sk. run s2 (take k post) = Inr sk \<and>
                  aim_coordinate sk = aim_coordinate s2))) \<and>
     (\<forall>s'. run s ((ServerInput t p True z # pre @ Cycle # post) @
                  (ServerInput t2 p2 False z2 # mid) @
                  (ServerInput t3 p3 True z3 # pre' @ Cycle # post')) = Inr s' \<longrightarrow>
        captures s ((ServerInput t p True z # pre @ Cycle # post) @
                    (ServerInput t2 p2 False z2 # mid) @
                    (ServerInput t3 p3 True z3 # pre' @ Cycle # post')) = 2)"
proof (intro conjI allI impI)
  let ?s0 = "update_server_input s t p True z"
  have p0: "\<not> server_write ?s0" "lock_on_in ?s0" "init_lock_on ?s0"
    using clear direct by (simp_all add: update_server_input_tracker)
  {
    fix s'
    assume r: "run s (ServerInput t p True z # pre @ Cycle # post) = Inr s'"
    then have r0: "run ?s0 (pre @ Cycle # post) = Inr s'" by simp
    from locked_session [OF p0 first r0] obtain s1 s2 where
      c: "captures ?s0 (pre @ Cycle # post) = 1"
      and r1: "run ?s0 pre = Inr s1" and m: "main_cycle s1 = Inr s2"
      and r2: "run s2 post = Inr s'" and d: "capture_due s1"
      and pc: "point_to_coordinate (theta s2) (phi s2) (d_height s2) (d_coordinate s2) =
             Inr (aim_coordinate s2)"
      by blast
    from locked_pending [OF p0 first(1,2)] r1
    have i1: "\<not> server_write s1" "lock_on_in s1" "init_lock_on s1"
      by auto
    from main_cycle_tracker [OF i1(1) m] i1 have
      i2: "\<not> server_write s2" "lock_on_in s2" "\<not> init_lock_on s2" by auto
    show "captures s (ServerInput t p True z # pre @ Cycle # post) = 1"
      using c by simp
    have "\<forall>k. \<exists>sk. run s2 (take k post) = Inr sk \<and> aim_coordinate sk = aim_coordinate s2"
      using locked_steady_prefix [OF i2 first(3) r2] by blast
    with r1 m d pc
    show "\<exists>s1 s2. run s (ServerInput t p True z # pre) = Inr s1 \<and> main_cycle s1 = Inr s2 \<and>
           capture_due s1 \<and>
           point_to_coordinate (theta s2) (phi s2) (d_height s2) (d_coordinate s2) =
             Inr (aim_coordinate s2) \<and>
           (\<forall>k. \<exists>sk. run s2 (take k post) = Inr sk \<and>
                  aim_coordinate sk = aim_coordinate s2)"
      by auto
  }
  {
    fix s'
    let ?e1 = "ServerInput t p True z # pre @ Cycle # post"
    let ?e2 = "ServerInput t2 p2 False z2 # mid"
    let ?e3 = "ServerInput t3 p3 True z3 # pre' @ Cycle # post'"
    assume r: "run s (?e1 @ ?e2 @ ?e3) = Inr s'"
    then obtain sa where ra: "run s ?e1 = Inr sa" and r23: "run sa (?e2 @ ?e3) = Inr s'"
      unfolding run_append [of s ?e1] by (auto split: sum.splits)
    from r23 obtain sb where rb: "run sa ?e2 = Inr sb" and r3: "run sb ?e3 = Inr s'"
      unfolding run_append [of sa ?e2] by (auto split: sum.splits)
    from ra have ra0: "run ?s0 (pre @ Cycle # post) = Inr sa" by simp
    from locked_session [OF p0 first ra0] have
      c1: "captures ?s0 (pre @ Cycle # post) = 1" and ia: "\<not> server_write sa"
      by auto
    let ?sa' = "update_server_input sa t2 p2 False z2"
    have pa: "\<not> server_write ?sa'" "\<not> lock_on_in ?sa'"
      using ia by (simp_all add: update_server_input_tracker)
    from rb have rb0: "run ?sa' mid = Inr sb" by simp
    from released_phase [OF pa between rb0] have
      c2: "captures ?sa' mid = 0" and ib: "\<not> server_write sb" "\<not> lock_on_in sb"
      by auto
    let ?sb' = "update_server_input sb t3 p3 True z3"
    have pb: "\<not> server_write ?sb'" "lock_on_in ?sb'" "init_lock_on ?sb'"
      using ib by (simp_all add: update_server_input_tracker)
    from r3 have r30: "run ?sb' (pre' @ Cycle # post') = Inr s'" by simp
    from locked_session [OF pb second r30] have
      c3: "captures ?sb' (pre' @ Cycle # post') = 1" by auto
    have "captures s (?e1 @ ?e2 @ ?e3) = captures s ?e1 + captures sa (?e2 @ ?e3)"
      using ra by (rule captures_append)
    also have "captures sa (?e2 @ ?e3) = captures sa ?e2 + captures sb ?e3"
      using rb by (rule captures_append)
    also have "captures s ?e1 = 1" using c1 by simp
    also have "captures sa ?e2 = 0" using c2 by simp
    also have "captures sb ?e3 = 1" using c3 by simp
    finally show "captures s (?e1 @ ?e2 @ ?e3) = 2" by simp
  }
qed

lemma publish_level_zero:
  "update_server_input (init\<lparr>lock_on_in := l, lock_on := l', init_lock_on := i\<rparr>) 0 0 k 2 =
   init\<lparr>lock_on_in := k, lock_on := l', init_lock_on := (i \<or> (k \<and> \<not> l))\<rparr>"
  by (simp add: update_server_input_def init_def Let_def)

lemma capture_due_level_zero:
  "capture_due (init\<lparr>lock_on_in := l, lock_on := l', init_lock_on := i\<rparr>) = (l \<and> i)"
  by (simp add: capture_due_def main_read_server_def main_read_autopilot_def init_def)

theorem capture_once_per_session_witness:
  "run init [ServerInput 0 0 True 2, Cycle, Cycle] =
     Inr (init\<lparr>lock_on_in := True, lock_on := True, init_lock_on := False\<rparr>) \<and>
   captures init [ServerInput 0 0 True 2, Cycle, Cycle] = 1 \<and>
   run init ([ServerInput 0 0 True 2, Cycle, Cycle] @ [ServerInput 0 0 False 2, Cycle] @
             [ServerInput 0 0 True 2, Cycle]) =
     Inr (init\<lparr>lock_on_in := True, lock_on := True, init_lock_on := False\<rparr>) \<and>
   captures init ([ServerInput 0 0 True 2, Cycle, Cycle] @ [ServerInput 0 0 False 2, Cycle] @
                  [ServerInput 0 0 True 2, Cycle]) = 2"
proof -
  have clear: "\<not> server_write init" and direct: "\<not> lock_on_in init"
    by (simp_all add: init_def)
  have r1: "run init [ServerInput 0 0 True 2, Cycle, Cycle] =
     Inr (init\<lparr>lock_on_in := True, lock_on := True, init_lock_on := False\<rparr>)"
    by (subst init_tracker) (simp add: publish_level_zero cycle_level_zero)
  have r2: "run init ([ServerInput 0 0 True 2, Cycle, Cycle] @
             [ServerInput 0 0 False 2, Cycle] @ [ServerInput 0 0 True 2, Cycle]) =
     Inr (init\<lparr>lock_on_in := True, lock_on := True, init_lock_on := False\<rparr>)"
    by (subst init_tracker) (simp add: publish_level_zero cycle_level_zero)
  have c: "list_all lock_held []" "Cycle \<notin> set []" "list_all lock_held [Cycle]"
    "list_all lock_released [Cycle]" "list_all lock_held []"
    by simp_all
  from capture_once_per_session [OF clear direct c(1,2,3) c(4) c(1,2,5),
      of 0 0 2 0 0 2 0 0 2] r1 r2
  show ?thesis by simp
qed

text \<open>
  Claim C2, as stated: a publish of \<open>lock_on\<close> false then true followed by any number of
  iterations gives exactly one capture, and a true, false, true sequence of publishes
  gives exactly two. The flag \<open>init_lock_on\<close> is consumed by the loop only: with no
  iteration after the publish nothing is captured, and a session that is published and
  released before any iteration runs is never seen by the loop. Of the two publishes of
  \<open>lock_on = True\<close> in the second run below, only the second is followed by a capture.
\<close>

theorem unobserved_session:
  "captures init [ServerInput 0 0 True 2] = 0 \<and>
   run init [ServerInput 0 0 True 2, ServerInput 0 0 False 2,
             ServerInput 0 0 True 2, Cycle, Cycle] =
     Inr (init\<lparr>lock_on_in := True, lock_on := True, init_lock_on := False\<rparr>) \<and>
   captures init [ServerInput 0 0 True 2, ServerInput 0 0 False 2,
                  ServerInput 0 0 True 2, Cycle, Cycle] = 1"
  by (subst (1 2 3) init_tracker)
    (simp add: publish_level_zero cycle_level_zero capture_due_level_zero)

section \<open>Attitude compensation\<close>

subsection \<open>The constant \<open>DEG_IN_RED\<close> and pi\<close>

text \<open>
  \<open>DEG_IN_RED\<close> is pi / 180 cut after ten decimals, so it is below pi / 180 and
  \<open>rad2deg pi\<close> is above 180. The bound on pi comes from Machin's formula and the
  alternating series of the arctangent.
\<close>

lemma arctan_fifth_lower:
  "(\<Sum>i<6. (- 1) ^ i * (1 / real (i * 2 + 1) * (1 / 5) ^ (i * 2 + 1)))
     \<le> arctan (1 / 5 :: real)"
proof -
  have b: "\<bar>1 / 5 :: real\<bar> \<le> 1" by simp
  have "0 < 1 / real (0 * 2 + 1) * (1 / 5 :: real) ^ (0 * 2 + 1)" by simp
  with summable_Leibniz(2) [OF zeroseq_arctan_series [OF b] monoseq_arctan_series [OF b]]
  have "(\<Sum>i. (- 1) ^ i * (1 / real (i * 2 + 1) * (1 / 5 :: real) ^ (i * 2 + 1)))
      \<in> {(\<Sum>i<2 * 3. (- 1) ^ i * (1 / real (i * 2 + 1) * (1 / 5) ^ (i * 2 + 1))) ..
         (\<Sum>i<2 * 3 + 1. (- 1) ^ i * (1 / real (i * 2 + 1) * (1 / 5) ^ (i * 2 + 1)))}"
    by blast
  then show ?thesis
    unfolding arctan_series [OF b] by simp
qed

lemma arctan_239_upper:
  "arctan (1 / 239 :: real)
     \<le> (\<Sum>i<3. (- 1) ^ i * (1 / real (i * 2 + 1) * (1 / 239) ^ (i * 2 + 1)))"
proof -
  have b: "\<bar>1 / 239 :: real\<bar> \<le> 1" by simp
  have "0 < 1 / real (0 * 2 + 1) * (1 / 239 :: real) ^ (0 * 2 + 1)" by simp
  with summable_Leibniz(2) [OF zeroseq_arctan_series [OF b] monoseq_arctan_series [OF b]]
  have "(\<Sum>i. (- 1) ^ i * (1 / real (i * 2 + 1) * (1 / 239 :: real) ^ (i * 2 + 1)))
      \<in> {(\<Sum>i<2 * 1. (- 1) ^ i * (1 / real (i * 2 + 1) * (1 / 239) ^ (i * 2 + 1))) ..
         (\<Sum>i<2 * 1 + 1. (- 1) ^ i * (1 / real (i * 2 + 1) * (1 / 239) ^ (i * 2 + 1)))}"
    by blast
  then show ?thesis
    unfolding arctan_series [OF b] by simp
qed

lemma pi_lower: "314159265 / 100000000 < pi"
proof -
  have "pi = 16 * arctan (1 / 5) - 4 * arctan (1 / 239)"
    using machin by simp
  moreover have
    "16 * (\<Sum>i<6. (- 1) ^ i * (1 / real (i * 2 + 1) * (1 / 5) ^ (i * 2 + 1)))
      - 4 * (\<Sum>i<3. (- 1) ^ i * (1 / real (i * 2 + 1) * (1 / 239) ^ (i * 2 + 1)))
      > (314159265 / 100000000 :: real)"
    by (simp add: lessThan_nat_numeral lessThan_Suc power_one_over)
  ultimately show ?thesis
    using arctan_fifth_lower arctan_239_upper by linarith
qed

lemma arctan_fifth_upper:
  "arctan (1 / 5 :: real)
     \<le> (\<Sum>i<7. (- 1) ^ i * (1 / real (i * 2 + 1) * (1 / 5) ^ (i * 2 + 1)))"
proof -
  have b: "\<bar>1 / 5 :: real\<bar> \<le> 1" by simp
  have "0 < 1 / real (0 * 2 + 1) * (1 / 5 :: real) ^ (0 * 2 + 1)" by simp
  with summable_Leibniz(2) [OF zeroseq_arctan_series [OF b] monoseq_arctan_series [OF b]]
  have "(\<Sum>i. (- 1) ^ i * (1 / real (i * 2 + 1) * (1 / 5 :: real) ^ (i * 2 + 1)))
      \<in> {(\<Sum>i<2 * 3. (- 1) ^ i * (1 / real (i * 2 + 1) * (1 / 5) ^ (i * 2 + 1))) ..
         (\<Sum>i<2 * 3 + 1. (- 1) ^ i * (1 / real (i * 2 + 1) * (1 / 5) ^ (i * 2 + 1)))}"
    by blast
  then show ?thesis
    unfolding arctan_series [OF b] by simp
qed

lemma arctan_239_lower:
  "(\<Sum>i<2. (- 1) ^ i * (1 / real (i * 2 + 1) * (1 / 239) ^ (i * 2 + 1)))
     \<le> arctan (1 / 239 :: real)"
proof -
  have b: "\<bar>1 / 239 :: real\<bar> \<le> 1" by simp
  have "0 < 1 / real (0 * 2 + 1) * (1 / 239 :: real) ^ (0 * 2 + 1)" by simp
  with summable_Leibniz(2) [OF zeroseq_arctan_series [OF b] monoseq_arctan_series [OF b]]
  have "(\<Sum>i. (- 1) ^ i * (1 / real (i * 2 + 1) * (1 / 239 :: real) ^ (i * 2 + 1)))
      \<in> {(\<Sum>i<2 * 1. (- 1) ^ i * (1 / real (i * 2 + 1) * (1 / 239) ^ (i * 2 + 1))) ..
         (\<Sum>i<2 * 1 + 1. (- 1) ^ i * (1 / real (i * 2 + 1) * (1 / 239) ^ (i * 2 + 1)))}"
    by blast
  then show ?thesis
    unfolding arctan_series [OF b] by simp
qed

lemma pi_upper: "pi < 31415926537 / 10000000000"
proof -
  have "pi = 16 * arctan (1 / 5) - 4 * arctan (1 / 239)"
    using machin by simp
  moreover have
    "16 * (\<Sum>i<7. (- 1) ^ i * (1 / real (i * 2 + 1) * (1 / 5) ^ (i * 2 + 1)))
      - 4 * (\<Sum>i<2. (- 1) ^ i * (1 / real (i * 2 + 1) * (1 / 239) ^ (i * 2 + 1)))
      < (31415926537 / 10000000000 :: real)"
    by (simp add: lessThan_nat_numeral lessThan_Suc power_one_over)
  ultimately show ?thesis
    using arctan_fifth_upper arctan_239_lower by linarith
qed


lemma rad2deg_pi_gt_180: "180 < rad2deg pi"
  using pi_lower by (simp add: rad2deg_def DEG_IN_RED_def)

lemma deg2rad_less_pi: "x \<le> 180 \<Longrightarrow> deg2rad x < pi"
  using pi_lower by (simp add: deg2rad_def DEG_IN_RED_def)

lemma deg2rad_nonneg: "0 \<le> x \<Longrightarrow> 0 \<le> deg2rad x"
  and deg2rad_pos: "0 < x \<Longrightarrow> 0 < deg2rad x"
  by (simp_all add: deg2rad_def DEG_IN_RED_def)

lemma deg2rad_less_iff: "deg2rad x < y \<longleftrightarrow> x < rad2deg y"
  and deg2rad_le_iff: "deg2rad x \<le> y \<longleftrightarrow> x \<le> rad2deg y"
  and less_deg2rad_iff: "y < deg2rad x \<longleftrightarrow> rad2deg y < x"
  by (simp_all add: deg2rad_def rad2deg_def DEG_IN_RED_def field_simps)

lemma rad2deg_deg2rad: "rad2deg (deg2rad x) = x"
  by (simp add: rad2deg_def deg2rad_def DEG_IN_RED_def)

lemma deg2rad_rad2deg: "deg2rad (rad2deg x) = x"
  by (simp add: rad2deg_def deg2rad_def DEG_IN_RED_def)

lemma rad2deg_mono: "x \<le> y \<Longrightarrow> rad2deg x \<le> rad2deg y"
  by (simp add: rad2deg_def DEG_IN_RED_def)

text \<open>One turn is \<open>rad2deg (2 * pi)\<close> degrees: a little more than 360.\<close>

lemma turn_excess: "0 < rad2deg (2 * pi) - 360" "rad2deg (2 * pi) - 360 \<le> 1 / 1000000"
  using pi_lower pi_upper by (simp_all add: rad2deg_def DEG_IN_RED_def field_simps)

subsection \<open>The float modulo and \<open>arctan2\<close>\<close>

lemma py_mod_id:
  assumes "0 \<le> x" "x < m"
  shows "py_mod x m = x"
proof -
  from assms have "0 \<le> x / m" "x / m < 1" by simp_all
  then have "\<lfloor>x / m\<rfloor> = 0" by linarith
  then show ?thesis by (simp add: py_mod_def)
qed

lemma py_mod_shift:
  assumes "- m \<le> x" "x < 0"
  shows "py_mod x m = x + m"
proof -
  from assms have m: "0 < m" by simp
  from assms m have "- 1 \<le> x / m" by (simp add: pos_le_divide_eq)
  moreover from assms m have "x / m < 0" by (simp add: divide_neg_pos)
  ultimately have "\<lfloor>x / m\<rfloor> = - 1" by linarith
  then show ?thesis by (simp add: py_mod_def)
qed

lemma py_mod_range:
  assumes m: "0 < m"
  shows "0 \<le> py_mod x m \<and> py_mod x m < m"
  using floor_divide_lower [OF m, of x] floor_divide_upper [OF m, of x]
  by (simp add: py_mod_def algebra_simps)

text \<open>\<open>arctan2\<close> gives back the angle of a point in polar form, for angles in \<open>(-pi, pi]\<close>.\<close>

lemma arctan2_polar:
  assumes r: "0 < r" and b: "- pi < b" "b \<le> pi"
  shows "arctan2 (r * sin b) (r * cos b) = b"
proof -
  have q: "sin b / cos b = tan b" by (simp add: tan_def)
  consider "- pi < b \<and> b < - (pi / 2)" | "b = - (pi / 2)" | "- (pi / 2) < b \<and> b < pi / 2"
    | "b = pi / 2" | "pi / 2 < b \<and> b \<le> pi"
    using b by linarith
  then show ?thesis
  proof cases
    case 1
    then have "0 < cos (b + pi)" by (intro cos_gt_zero_pi) simp_all
    then have c: "cos b < 0" by simp
    from 1 have "0 < sin (b + pi)" by (intro sin_gt_zero) simp_all
    then have s: "sin b < 0" by simp
    have "arctan (tan (b + pi)) = b + pi" using 1 by (intro arctan_tan) simp_all
    then have "arctan (tan b) = b + pi" by simp
    with c s r show ?thesis
      by (simp add: arctan2_def q mult_less_0_iff zero_less_mult_iff zero_le_mult_iff not_le)
  next
    case 2
    then show ?thesis using r by (simp add: arctan2_def)
  next
    case 3
    then have c: "0 < cos b" by (intro cos_gt_zero_pi) simp_all
    have "arctan (tan b) = b" using 3 by (intro arctan_tan) simp_all
    with c r show ?thesis by (simp add: arctan2_def q)
  next
    case 4
    have "arctan2 (r * sin (pi / 2)) (r * cos (pi / 2)) = pi / 2"
      using r by (simp add: arctan2_def)
    then show ?thesis unfolding 4 .
  next
    case 5
    then have "0 < cos (b - pi)" by (intro cos_gt_zero_pi) simp_all
    then have c: "cos b < 0" by simp
    from 5 have s: "0 \<le> sin b" by (intro sin_ge_zero) simp_all
    have "arctan (tan (b - pi + pi)) = b - pi"
      unfolding tan_periodic_pi using 5 by (intro arctan_tan) simp_all
    then have "arctan (tan b) = b - pi" by simp
    with c s r show ?thesis
      by (simp add: arctan2_def q mult_less_0_iff zero_less_mult_iff zero_le_mult_iff not_le)
  qed
qed

subsection \<open>A level vehicle\<close>

lemma rotation_matrix_level: "rotation_matrix 0 0 0 = identity_m"
  by (simp add: rotation_matrix_def identity_m_def deg2rad_def tf_sin_def tf_cos_def)

lemma adjust_aim_level:
  assumes "d_roll s = 0" "d_yaw s = 0" "d_pitch s = 0"
  shows "adjust_aim s t p = spherical_to_angular (angular_to_spherical t p)"
  using assms
  by (simp add: adjust_aim_def rotation_matrix_level identity_m_def
      angular_to_spherical_def Let_def)

lemma spherical_angular:
  "spherical_to_angular (angular_to_spherical t p) =
    (rad2deg (arccos (cos (deg2rad t))),
     py_mod (rad2deg (arctan2 (sin (deg2rad t) * sin (deg2rad p))
                               (sin (deg2rad t) * cos (deg2rad p)))) 360)"
  by (simp add: spherical_to_angular_def angular_to_spherical_def Let_def
      tf_sin_def tf_cos_def tf_arccos_def)

lemma level_theta:
  assumes "d_roll s = 0" "d_yaw s = 0" "d_pitch s = 0" and "0 \<le> t" "t < 90"
  shows "fst (adjust_aim s t p) = t"
proof -
  have "0 \<le> deg2rad t" "deg2rad t \<le> pi"
    using assms(4,5) deg2rad_less_pi [of t] by (simp_all add: deg2rad_nonneg)
  then have "arccos (cos (deg2rad t)) = deg2rad t" by (rule arccos_cos)
  then show ?thesis
    by (simp add: adjust_aim_level [OF assms(1-3)] spherical_angular rad2deg_deg2rad)
qed

lemma adjust_aim_phi_range:
  "0 \<le> snd (adjust_aim s t p) \<and> snd (adjust_aim s t p) < 360"
  using py_mod_range [of 360]
  by (simp add: adjust_aim_def spherical_to_angular_def Let_def)

lemma level_theta_zero:
  assumes "d_roll s = 0" "d_yaw s = 0" "d_pitch s = 0"
  shows "adjust_aim s 0 p = (0, 0)"
  by (simp add: adjust_aim_level [OF assms] spherical_angular deg2rad_def rad2deg_def
      arctan2_def py_mod_def)

lemma sin_deg2rad_pos: "0 < t \<Longrightarrow> t < 90 \<Longrightarrow> 0 < sin (deg2rad t)"
  using deg2rad_less_pi [of t] by (intro sin_gt_zero) (simp_all add: deg2rad_pos)

lemma level_phi_low:
  assumes "d_roll s = 0" "d_yaw s = 0" "d_pitch s = 0" and "0 < t" "t < 90"
    and "0 \<le> p" "p \<le> rad2deg pi"
  shows "snd (adjust_aim s t p) = p"
proof -
  have r: "0 < sin (deg2rad t)" using assms(4,5) by (rule sin_deg2rad_pos)
  have b: "- pi < deg2rad p" "deg2rad p \<le> pi"
    using assms(6,7) deg2rad_nonneg [of p]
    by (simp_all add: deg2rad_le_iff less_le_trans [of "- pi" 0])
  have "p < 360"
    using assms(7) pi_less_4 by (simp add: rad2deg_def DEG_IN_RED_def field_simps)
  then show ?thesis
    using assms(6)
    by (simp add: adjust_aim_level [OF assms(1-3)] spherical_angular
        arctan2_polar [OF r b] rad2deg_deg2rad py_mod_id)
qed

lemma level_phi_high:
  assumes "d_roll s = 0" "d_yaw s = 0" "d_pitch s = 0" and "0 < t" "t < 90"
    and "rad2deg pi < p" "p < 360"
  shows "snd (adjust_aim s t p) = p + 360 - rad2deg (2 * pi)"
proof -
  have r: "0 < sin (deg2rad t)" using assms(4,5) by (rule sin_deg2rad_pos)
  have "deg2rad p < 2 * pi"
    using assms(7) deg2rad_less_pi [of "p / 2"] by (simp add: deg2rad_def)
  moreover have "pi < deg2rad p"
    using assms(6) by (simp add: less_deg2rad_iff)
  ultimately have b: "- pi < deg2rad p - 2 * pi" "deg2rad p - 2 * pi \<le> pi"
    using pi_gt_zero by linarith+
  have sc: "sin (deg2rad p - 2 * pi) = sin (deg2rad p)"
    "cos (deg2rad p - 2 * pi) = cos (deg2rad p)"
    by (simp_all add: sin_diff cos_diff)
  have e: "rad2deg (deg2rad p - 2 * pi) = p - rad2deg (2 * pi)"
    by (simp add: rad2deg_def deg2rad_def DEG_IN_RED_def field_simps)
  have "360 < rad2deg (2 * pi)" using rad2deg_pi_gt_180 by (simp add: rad2deg_def)
  with assms(7) have neg: "p - rad2deg (2 * pi) < 0" by simp
  have "rad2deg (2 * pi) = 2 * rad2deg pi" by (simp add: rad2deg_def)
  with assms(6) have "- 360 \<le> p - rad2deg (2 * pi)"
    using pi_less_4 by (simp add: rad2deg_def DEG_IN_RED_def field_simps)
  from py_mod_shift [OF this neg] arctan2_polar [OF r b]
  show ?thesis
    by (simp add: adjust_aim_level [OF assms(1-3)] spherical_angular sc e)
qed

lemma init_level: "d_roll init = 0" "d_yaw init = 0" "d_pitch init = 0"
  by (simp_all add: init_def)

lemma rad2deg_pi_less_230: "rad2deg pi < 230"
  using pi_less_4 by (simp add: rad2deg_def DEG_IN_RED_def field_simps)

text \<open>
  Claim C1, as stated: with roll, yaw and pitch 0, \<open>rotation_matrix 0 0 0\<close> is the
  identity and \<open>adjust_aim theta phi\<close> is exactly \<open>(theta, phi)\<close> for every theta in
  \<open>[0, 90)\<close> and any phi. The matrix is the identity, but \<open>adjust_aim\<close> recovers phi from
  the unit vector with \<open>arctan2\<close> and \<open>% 360\<close>: at theta 0 the vector is (0, 0, -1)
  whatever phi is, and the result is phi 0; a phi outside \<open>[0, 360)\<close> comes back inside;
  and a phi above 180 comes back through a negative angle, shifted by
  \<open>360 - rad2deg (2 * pi)\<close>, which is not 0 because \<open>DEG_IN_RED\<close> is not pi / 180.
\<close>

theorem level_aim_not_identity:
  "d_roll init = 0 \<and> d_yaw init = 0 \<and> d_pitch init = 0 \<and>
   adjust_aim init 0 10 = (0, 0) \<and>
   adjust_aim init 30 400 \<noteq> (30, 400) \<and>
   adjust_aim init 30 270 \<noteq> (30, 270)"
proof -
  have a: "adjust_aim init 0 10 = (0, 0)"
    using init_level by (rule level_theta_zero)
  have "snd (adjust_aim init 30 400) < 360"
    using adjust_aim_phi_range [of init 30 400] by simp
  then have b: "adjust_aim init 30 400 \<noteq> (30, 400)" by auto
  have "snd (adjust_aim init 30 270) = 270 + 360 - rad2deg (2 * pi)"
    using init_level rad2deg_pi_less_230 by (intro level_phi_high) simp_all
  moreover have "360 < rad2deg (2 * pi)"
    using rad2deg_pi_gt_180 by (simp add: rad2deg_def)
  ultimately have c: "adjust_aim init 30 270 \<noteq> (30, 270)" by auto
  from a b c init_level show ?thesis by simp
qed

text \<open>
  Claim C1, amended: \<open>rotation_matrix 0 0 0\<close> is the identity, and with roll, yaw and
  pitch 0 \<open>adjust_aim theta phi\<close> returns theta to within a millionth of a degree for
  theta in \<open>[0, 90)\<close>, and phi to within a millionth of a degree for theta in \<open>(0, 90)\<close>
  and phi in \<open>[0, 360)\<close>.
\<close>

theorem level_aim:
  assumes "d_roll s = 0" "d_yaw s = 0" "d_pitch s = 0"
  shows "rotation_matrix 0 0 0 = identity_m \<and>
    (0 \<le> theta' \<and> theta' < 90 \<longrightarrow>
       \<bar>fst (adjust_aim s theta' phi') - theta'\<bar> \<le> 1 / 1000000) \<and>
    (0 < theta' \<and> theta' < 90 \<and> 0 \<le> phi' \<and> phi' < 360 \<longrightarrow>
       \<bar>snd (adjust_aim s theta' phi') - phi'\<bar> \<le> 1 / 1000000)"
proof (intro conjI impI)
  show "rotation_matrix 0 0 0 = identity_m" by (rule rotation_matrix_level)
  show "\<bar>fst (adjust_aim s theta' phi') - theta'\<bar> \<le> 1 / 1000000"
    if "0 \<le> theta' \<and> theta' < 90"
  proof -
    from assms that have "fst (adjust_aim s theta' phi') = theta'"
      by (intro level_theta) simp_all
    then show ?thesis by simp
  qed
  show "\<bar>snd (adjust_aim s theta' phi') - phi'\<bar> \<le> 1 / 1000000"
    if h: "0 < theta' \<and> theta' < 90 \<and> 0 \<le> phi' \<and> phi' < 360"
  proof (cases "phi' \<le> rad2deg pi")
    case True
    with assms h have "snd (adjust_aim s theta' phi') = phi'"
      by (intro level_phi_low) simp_all
    then show ?thesis by simp
  next
    case False
    with assms h have "snd (adjust_aim s theta' phi') = phi' + 360 - rad2deg (2 * pi)"
      by (intro level_phi_high) simp_all
    then show ?thesis using turn_excess by simp
  qed
qed

theorem level_aim_witness:
  "d_roll init = 0 \<and> d_yaw init = 0 \<and> d_pitch init = 0 \<and>
   rotation_matrix 0 0 0 = identity_m \<and>
   \<bar>fst (adjust_aim init 30 90) - 30\<bar> \<le> 1 / 1000000 \<and>
   \<bar>snd (adjust_aim init 30 90) - 90\<bar> \<le> 1 / 1000000 \<and>
   \<bar>fst (adjust_aim init 60 270) - 60\<bar> \<le> 1 / 1000000 \<and>
   \<bar>snd (adjust_aim init 60 270) - 270\<bar> \<le> 1 / 1000000"
  using level_aim [OF init_level, of 30 90] level_aim [OF init_level, of 60 270]
    init_level
  by simp

subsection \<open>A pitched vehicle\<close>

text \<open>
  With pitch \<open>q\<close> (in radians, as \<open>update_autopilot_input\<close> receives it) and no roll or
  yaw, an aim at bearing \<open>rad2deg pi\<close> comes out with its theta raised by the pitch.
\<close>

lemma pitched_aim:
  assumes "d_roll s = 0" "d_yaw s = 0" "d_pitch s = rad2deg q"
    and "0 \<le> q + deg2rad t" "q + deg2rad t \<le> pi"
  shows "fst (adjust_aim s t (rad2deg pi)) = t + rad2deg q"
proof -
  have "fst (adjust_aim s t (rad2deg pi)) =
      rad2deg (arccos (cos q * cos (deg2rad t) - sin q * sin (deg2rad t)))"
    by (simp add: adjust_aim_def assms(1-3) rotation_matrix_def angular_to_spherical_def
        spherical_to_angular_def Let_def deg2rad_rad2deg tf_sin_def tf_cos_def tf_arccos_def
        deg2rad_def [of 0] algebra_simps)
  also have "cos q * cos (deg2rad t) - sin q * sin (deg2rad t) = cos (q + deg2rad t)"
    by (simp add: cos_add)
  also have "arccos (cos (q + deg2rad t)) = q + deg2rad t"
    using assms(4,5) by (rule arccos_cos)
  also have "rad2deg (q + deg2rad t) = t + rad2deg q"
    by (simp add: rad2deg_def deg2rad_def DEG_IN_RED_def field_simps)
  finally show ?thesis .
qed

lemma spherical_to_angular_theta:
  "fst (spherical_to_angular coord) = rad2deg (arccos (- item coord 2))"
  by (simp add: spherical_to_angular_def Let_def tf_arccos_def)

lemma spherical_to_angular_theta_range:
  assumes "- 1 \<le> item coord 2" "item coord 2 \<le> 1"
  shows "0 \<le> fst (spherical_to_angular coord) \<and>
         fst (spherical_to_angular coord) \<le> rad2deg pi"
proof -
  from assms have "0 \<le> arccos (- item coord 2)" "arccos (- item coord 2) \<le> pi"
    by (simp_all add: arccos_lbound arccos_ubound)
  then show ?thesis
    using rad2deg_mono [of 0 "arccos (- item coord 2)"]
      rad2deg_mono [of "arccos (- item coord 2)" pi]
    by (simp add: spherical_to_angular_theta) (simp add: rad2deg_def)
qed

lemma pitched_run:
  "run init [AutopilotInput 0 0 (1 / 20) 1 0 0, ServerInput 89 (rad2deg pi) False 2, Cycle] =
     Inr (main_output
       (init\<lparr>d_pitch_in := rad2deg (1 / 20), d_pitch := rad2deg (1 / 20),
             theta_in := 89, theta := 89, phi_in := rad2deg pi, phi := rad2deg pi\<rparr>)
       (adjust_aim
         (init\<lparr>d_pitch_in := rad2deg (1 / 20), d_pitch := rad2deg (1 / 20),
               theta_in := 89, theta := 89, phi_in := rad2deg pi, phi := rad2deg pi\<rparr>)
         89 (rad2deg pi)))"
  by (simp add: update_autopilot_input_def update_server_input_def Let_def init_def
      main_cycle_def main_read_server_def main_read_autopilot_def main_aim_def
      rad2deg_def [of 0])

lemma pitched_over_90: "(90 :: real) < 89 + rad2deg (1 / 20)"
  by (simp add: rad2deg_def DEG_IN_RED_def)

lemma pitched_in_range: "0 \<le> 1 / 20 + deg2rad 89" "1 / 20 + deg2rad 89 \<le> pi"
  using pi_ge_two by (simp_all add: deg2rad_def DEG_IN_RED_def)

text \<open>
  Two iterations from loop copies that are still those of \<open>__init__\<close>: one in direct
  mode, with a published pitch of 0.05 rad and a published aim at theta 89, bearing
  \<open>rad2deg pi\<close>; one in lock-on mode, with a published height of 50 and the capture due.
\<close>

lemma pitched_aim_phi:
  assumes "d_roll s = 0" "d_yaw s = 0" "d_pitch s = rad2deg q"
    and "0 < q + deg2rad t" "q + deg2rad t < pi"
  shows "snd (adjust_aim s t (rad2deg pi)) = rad2deg pi"
proof -
  have "0 < sin (q + deg2rad t)" using assms(4,5) by (rule sin_gt_zero)
  then have neg: "- (cos q * sin (deg2rad t)) - sin q * cos (deg2rad t) < 0"
    by (simp add: sin_add algebra_simps)
  have "snd (adjust_aim s t (rad2deg pi)) =
      py_mod (rad2deg (arctan2 0 (- (cos q * sin (deg2rad t)) - sin q * cos (deg2rad t)))) 360"
    by (simp add: adjust_aim_def assms(1-3) rotation_matrix_def angular_to_spherical_def
        spherical_to_angular_def Let_def deg2rad_rad2deg tf_sin_def tf_cos_def tf_arccos_def
        deg2rad_def [of 0] algebra_simps)
  also have "arctan2 0 (- (cos q * sin (deg2rad t)) - sin q * cos (deg2rad t)) = pi"
    using neg by (simp add: arctan2_def)
  also have "py_mod (rad2deg pi) 360 = rad2deg pi"
    using rad2deg_pi_gt_180 rad2deg_pi_less_230 by (intro py_mod_id) simp_all
  finally show ?thesis .
qed

lemma pitched_cycle:
  "main_cycle (init\<lparr>d_pitch_in := rad2deg (1 / 20), theta_in := 89, phi_in := rad2deg pi\<rparr>) =
     Inr (main_output
       (init\<lparr>d_pitch_in := rad2deg (1 / 20), d_pitch := rad2deg (1 / 20),
             theta_in := 89, theta := 89, phi_in := rad2deg pi, phi := rad2deg pi\<rparr>)
       (adjust_aim
         (init\<lparr>d_pitch_in := rad2deg (1 / 20), d_pitch := rad2deg (1 / 20),
               theta_in := 89, theta := 89, phi_in := rad2deg pi, phi := rad2deg pi\<rparr>)
         89 (rad2deg pi)))"
  by (simp add: Let_def init_def main_cycle_def main_read_server_def main_read_autopilot_def
      main_aim_def)

lemma locked_cycle:
  "main_cycle (init\<lparr>d_height_in := 50, lock_on_in := True, init_lock_on := True\<rparr>) =
     Inr (init\<lparr>d_height_in := 50, d_height := 50, lock_on_in := True, lock_on := True,
               init_lock_on := False\<rparr>)"
  by (simp add: main_cycle_def main_read_server_def main_read_autopilot_def main_aim_def
      main_output_def adjust_aim_def init_def rotation_matrix_def angular_to_spherical_def
      spherical_to_angular_def deg2rad_def rad2deg_def tf_sin_def tf_cos_def tf_arccos_def
      tf_tan_def tf_arctan_def arctan2_def py_mod_def Let_def point_to_coordinate_def
      coordinate_to_point_def earth_radius_at_lat_def)

theorem main_cycle_output_witness:
  "(\<exists>s'. main_cycle (init\<lparr>d_pitch_in := rad2deg (1 / 20), theta_in := 89,
                            phi_in := rad2deg pi\<rparr>) = Inr s' \<and>
      d_pitch s' = rad2deg (1 / 20) \<and> theta s' = 89 \<and> phi s' = rad2deg pi \<and>
      theta_final s' = 89 + rad2deg (1 / 20) \<and> phi_final s' = rad2deg pi \<and>
      camera_pitch s' = sin (deg2rad (89 + rad2deg (1 / 20))) \<and>
      camera_yaw s' = rad2deg pi \<and>
      camera_roll s' = 0 \<and>
      set_cropping_args s' = (rad2deg pi, sin (deg2rad (89 + rad2deg (1 / 20))), 0, 2)) \<and>
   (\<exists>s'. main_cycle (init\<lparr>d_height_in := 50, lock_on_in := True,
                            init_lock_on := True\<rparr>) = Inr s' \<and>
      lock_on s' \<and> d_height s' = 50 \<and>
      point_to_coordinate 0 0 50 (0, 0) = Inr (aim_coordinate s') \<and>
      (\<exists>theta_temp phi_temp.
         coordinate_to_point (0, 0) (aim_coordinate s') 50 = Inr (theta_temp, phi_temp) \<and>
         (theta_final s', phi_final s') = adjust_aim s' theta_temp phi_temp) \<and>
      camera_pitch s' = sin (deg2rad (theta_final s')))"
proof
  let ?s = "init\<lparr>d_pitch_in := rad2deg (1 / 20), theta_in := 89, phi_in := rad2deg pi\<rparr>"
  from pitched_cycle obtain s' where m: "main_cycle ?s = Inr s'" by blast
  have clear: "\<not> server_write ?s" "\<not> autopilot_write ?s" "\<not> lock_on_in ?s"
    "d_roll_in ?s = 0" "d_yaw_in ?s = 0" "camera_zoom ?s = 2"
    by (simp_all add: init_def)
  note out = main_cycle_output [OF m]
  from out clear have f: "d_roll s' = 0" "d_yaw s' = 0" "d_pitch s' = rad2deg (1 / 20)"
    "theta s' = 89" "phi s' = rad2deg pi" "\<not> lock_on s'"
    by simp_all
  from out f have a: "(theta_final s', phi_final s') = adjust_aim s' 89 (rad2deg pi)"
    by simp
  have r: "0 < 1 / 20 + deg2rad 89" "1 / 20 + deg2rad 89 < pi"
    using pi_ge_two by (simp_all add: deg2rad_def DEG_IN_RED_def)
  have "fst (adjust_aim s' 89 (rad2deg pi)) = 89 + rad2deg (1 / 20)"
    using f(1-3) r by (intro pitched_aim) simp_all
  moreover have "snd (adjust_aim s' 89 (rad2deg pi)) = rad2deg pi"
    using f(1-3) r by (rule pitched_aim_phi)
  ultimately have fin: "theta_final s' = 89 + rad2deg (1 / 20)" "phi_final s' = rad2deg pi"
    using a by (simp_all add: prod_eq_iff)
  from out fin f clear
  show "\<exists>s'. main_cycle ?s = Inr s' \<and>
      d_pitch s' = rad2deg (1 / 20) \<and> theta s' = 89 \<and> phi s' = rad2deg pi \<and>
      theta_final s' = 89 + rad2deg (1 / 20) \<and> phi_final s' = rad2deg pi \<and>
      camera_pitch s' = sin (deg2rad (89 + rad2deg (1 / 20))) \<and>
      camera_yaw s' = rad2deg pi \<and>
      camera_roll s' = 0 \<and>
      set_cropping_args s' = (rad2deg pi, sin (deg2rad (89 + rad2deg (1 / 20))), 0, 2)"
    by (intro exI [of _ s']) (simp add: m deg2rad_rad2deg)
next
  let ?s = "init\<lparr>d_height_in := 50, lock_on_in := True, init_lock_on := True\<rparr>"
  from locked_cycle obtain s' where m: "main_cycle ?s = Inr s'" by blast
  from main_cycle_output [OF m] have
    "lock_on s' \<and> d_height s' = 50 \<and>
     point_to_coordinate 0 0 50 (0, 0) = Inr (aim_coordinate s') \<and>
     (\<exists>theta_temp phi_temp.
        coordinate_to_point (0, 0) (aim_coordinate s') 50 = Inr (theta_temp, phi_temp) \<and>
        (theta_final s', phi_final s') = adjust_aim s' theta_temp phi_temp) \<and>
     camera_pitch s' = sin (deg2rad (theta_final s'))"
    by (auto simp add: init_def)
  with m show "\<exists>s'. main_cycle ?s = Inr s' \<and>
      lock_on s' \<and> d_height s' = 50 \<and>
      point_to_coordinate 0 0 50 (0, 0) = Inr (aim_coordinate s') \<and>
      (\<exists>theta_temp phi_temp.
         coordinate_to_point (0, 0) (aim_coordinate s') 50 = Inr (theta_temp, phi_temp) \<and>
         (theta_final s', phi_final s') = adjust_aim s' theta_temp phi_temp) \<and>
      camera_pitch s' = sin (deg2rad (theta_final s'))"
    by blast
qed

text \<open>
  Claim C10: \<open>spherical_to_angular\<close> recovers theta as the arc cosine of \<open>- z\<close>, in
  degrees, so theta ranges over \<open>[0, rad2deg pi]\<close> (half a turn) for \<open>z\<close> in \<open>[-1, 1]\<close>,
  and \<open>adjust_aim\<close> does not clamp it: there are an attitude and an aim with theta in
  \<open>[0, 90)\<close> for which the iteration ends with \<open>theta_final\<close> above 90, and
  \<open>camera_pitch\<close> is the sine of that angle. The attitude found is a pitch of 0.05 rad
  with the aim at theta 89, looking backwards.
\<close>

theorem theta_final_unclamped:
  "fst (spherical_to_angular coord) = rad2deg (arccos (- item coord 2)) \<and>
   (- 1 \<le> item coord 2 \<and> item coord 2 \<le> 1 \<longrightarrow>
      0 \<le> fst (spherical_to_angular coord) \<and>
      fst (spherical_to_angular coord) \<le> rad2deg pi) \<and>
   (\<exists>roll yaw pitch theta' phi' s'.
      0 \<le> theta' \<and> theta' < 90 \<and>
      run init [AutopilotInput roll yaw pitch 1 0 0, ServerInput theta' phi' False 2, Cycle] =
        Inr s' \<and>
      (theta_final s', phi_final s') = adjust_aim s' theta' phi' \<and>
      90 < theta_final s' \<and>
      camera_pitch s' = sin (deg2rad (theta_final s')))"
proof -
  define s1 where
    "s1 = init\<lparr>d_pitch_in := rad2deg (1 / 20), d_pitch := rad2deg (1 / 20),
                theta_in := 89, theta := 89, phi_in := rad2deg pi, phi := rad2deg pi\<rparr>"
  have r: "run init [AutopilotInput 0 0 (1 / 20) 1 0 0, ServerInput 89 (rad2deg pi) False 2,
                     Cycle] = Inr (main_output s1 (adjust_aim s1 89 (rad2deg pi)))"
    unfolding s1_def by (rule pitched_run)
  have f: "d_roll s1 = 0" "d_yaw s1 = 0" "d_pitch s1 = rad2deg (1 / 20)"
    by (simp_all add: s1_def init_def)
  let ?s' = "main_output s1 (adjust_aim s1 89 (rad2deg pi))"
  have a: "(theta_final ?s', phi_final ?s') = adjust_aim ?s' 89 (rad2deg pi)"
    by (simp add: main_output_command adjust_aim_main_output)
  have c: "camera_pitch ?s' = sin (deg2rad (theta_final ?s'))"
    by (simp add: main_output_command)
  have "theta_final ?s' = fst (adjust_aim s1 89 (rad2deg pi))"
    by (simp add: main_output_command)
  also have "\<dots> = 89 + rad2deg (1 / 20)"
    using f pitched_in_range by (rule pitched_aim)
  finally have "90 < theta_final ?s'" using pitched_over_90 by simp
  with r a c have "\<exists>roll yaw pitch theta' phi' s'.
      0 \<le> theta' \<and> theta' < 90 \<and>
      run init [AutopilotInput roll yaw pitch 1 0 0, ServerInput theta' phi' False 2, Cycle] =
        Inr s' \<and>
      (theta_final s', phi_final s') = adjust_aim s' theta' phi' \<and>
      90 < theta_final s' \<and>
      camera_pitch s' = sin (deg2rad (theta_final s'))"
    by (intro exI [of _ 0] exI [of _ "1 / 20"] exI [of _ 89] exI [of _ "rad2deg pi"]
        exI [of _ ?s']) simp
  then show ?thesis
    using spherical_to_angular_theta spherical_to_angular_theta_range by blast
qed

theorem theta_final_unclamped_witness:
  "- 1 \<le> item (0, 0, 1) 2 \<and> item (0, 0, 1) 2 \<le> 1 \<and>
   fst (spherical_to_angular (0, 0, 1)) = rad2deg pi \<and>
   0 \<le> fst (spherical_to_angular (0, 0, 1)) \<and>
   fst (spherical_to_angular (0, 0, 1)) \<le> rad2deg pi"
  using theta_final_unclamped [of "(0, 0, 1)"] by simp

section \<open>The geodesic round trip\<close>

text \<open>
  \<open>coordinate_to_point\<close> undoes \<open>point_to_coordinate\<close> up to the bearing, which comes
  back as the angle of \<open>deg2rad phi\<close> in \<open>(-pi, pi]\<close>, in degrees, modulo 360.
\<close>

lemma earth_radius_at_lat_pos: "lat \<le> 90 \<Longrightarrow> 0 < earth_radius_at_lat lat"
  by (simp add: earth_radius_at_lat_def)









end
